theory Spec2Isabelle
  imports
    Main
    "HOL-Library.Char_ord"
    "HOL-Library.List_Lexorder"
    "HOL-Library.AList"
    "HOL-Library.Word"
begin

section \<open>The konnectivity agent resource of kamaji\<close>

text \<open>
  A shallow embedding of \<^verbatim>\<open>internal/resources/konnectivity/agent.go\<close>: the \<^verbatim>\<open>Agent\<close>
  resource that keeps a DaemonSet of konnectivity agents in a tenant cluster in step with
  the \<^verbatim>\<open>Spec.Addons.Konnectivity\<close> field of a TenantControlPlane.

  Go structs are records, pointers that the code tests against \<^verbatim>\<open>nil\<close> are options,
  \<^verbatim>\<open>map[string]string\<close> labels are maps (a nil map reads as the empty map), slices are
  lists, and the in-place writes of the methods are explicit state passing: a method
  returns the objects it writes to. A nil dereference is the outcome \<open>Panics\<close>.
\<close>

subsection \<open>Outcomes and errors\<close>

datatype 'a exec = Panics | Returns 'a

datatype error =
    NotFoundError string
  | AddressResolutionError string
  | ResolutionError string
  | StoreError string
  | MutateKeyError

text \<open>\<^verbatim>\<open>k8serrors.IsNotFound\<close>: the error is the store's "not found" answer.\<close>

fun IsNotFound :: "error \<Rightarrow> bool" where
  "IsNotFound (NotFoundError _) = True"
| "IsNotFound _ = False"

subsection \<open>The managed object: \<^verbatim>\<open>appsv1.DaemonSet\<close>\<close>

type_synonym labels = "string \<rightharpoonup> string"

record ObjectMeta =
  Name :: string
  Namespace :: string
  Labels :: labels
  Annotations :: labels

record LabelSelector =
  MatchLabels :: labels
  MatchExpressions :: "(string \<times> string \<times> string list) list"

record Toleration =
  t_Key :: string
  t_Operator :: string
  t_Value :: string
  t_Effect :: string

record ServiceAccountTokenProjection =
  sat_Path :: string
  sat_Audience :: string
  sat_ExpirationSeconds :: "64 word option"

record VolumeProjection =
  ServiceAccountToken :: "ServiceAccountTokenProjection option"

record ProjectedVolumeSource =
  Sources :: "VolumeProjection list"
  DefaultMode :: "32 word option"

record Volume =
  v_Name :: string
  v_Projected :: "ProjectedVolumeSource option"

record VolumeMount =
  vm_MountPath :: string
  vm_Name :: string
  vm_ReadOnly :: bool
  vm_SubPath :: string

text \<open>\<^verbatim>\<open>intstr.IntOrString\<close>; \<^verbatim>\<open>intstr.FromInt\<close> builds the first form.\<close>

datatype IntOrString = FromInt "32 word" | FromString string

record HTTPGetAction =
  http_Path :: string
  http_Port :: IntOrString
  http_Host :: string
  http_Scheme :: string

definition URISchemeHTTP :: string where
  "URISchemeHTTP = ''HTTP''"

record Probe =
  HTTPGet :: "HTTPGetAction option"
  InitialDelaySeconds :: "32 word"
  TimeoutSeconds :: "32 word"
  PeriodSeconds :: "32 word"
  SuccessThreshold :: "32 word"
  FailureThreshold :: "32 word"

text \<open>
  A container. The first six fields are the ones \<^verbatim>\<open>mutate\<close> assigns; \<open>c_Env\<close>,
  \<open>c_Ports\<close>, \<open>c_Resources\<close> and \<open>c_ImagePullPolicy\<close> stand for the fields it never
  names.
\<close>

record Container =
  c_Name :: string
  c_Image :: string
  c_Command :: "string list"
  c_Args :: "string list"
  c_VolumeMounts :: "VolumeMount list"
  c_LivenessProbe :: "Probe option"
  c_Env :: "(string \<times> string) list"
  c_Ports :: "(string \<times> 32 word) list"
  c_Resources :: "(string \<times> string) list"
  c_ImagePullPolicy :: string

text \<open>The zero value of the struct, which \<^verbatim>\<open>make([]corev1.Container, 1)\<close> holds.\<close>

definition zero_Container :: Container where
  "zero_Container =
     \<lparr>c_Name = [], c_Image = [], c_Command = [], c_Args = [], c_VolumeMounts = [],
      c_LivenessProbe = None, c_Env = [], c_Ports = [], c_Resources = [],
      c_ImagePullPolicy = []\<rparr>"

record PodSpec =
  PriorityClassName :: string
  Tolerations :: "Toleration list"
  NodeSelector :: labels
  ServiceAccountName :: string
  Volumes :: "Volume list"
  Containers :: "Container list"
  HostNetwork :: bool
  DNSPolicy :: string

record PodTemplateSpec =
  tpl_ObjectMeta :: ObjectMeta
  tpl_Spec :: PodSpec

record DaemonSetSpec =
  Selector :: "LabelSelector option"
  Template :: PodTemplateSpec
  MinReadySeconds :: "32 word"

record DaemonSet =
  ds_ObjectMeta :: ObjectMeta
  ds_Spec :: DaemonSetSpec

text \<open>The pod spec of the template: \<^verbatim>\<open>r.resource.Spec.Template.Spec\<close>.\<close>

abbreviation pod :: "DaemonSet \<Rightarrow> PodSpec" where
  "pod r \<equiv> tpl_Spec (Template (ds_Spec r))"

definition zero_ObjectMeta :: ObjectMeta where
  "zero_ObjectMeta = \<lparr>Name = [], Namespace = [], Labels = Map.empty, Annotations = Map.empty\<rparr>"

definition zero_LabelSelector :: LabelSelector where
  "zero_LabelSelector = \<lparr>MatchLabels = Map.empty, MatchExpressions = []\<rparr>"

definition zero_PodSpec :: PodSpec where
  "zero_PodSpec =
     \<lparr>PriorityClassName = [], Tolerations = [], NodeSelector = Map.empty,
      ServiceAccountName = [], Volumes = [], Containers = [], HostNetwork = False,
      DNSPolicy = []\<rparr>"

definition zero_DaemonSetSpec :: DaemonSetSpec where
  "zero_DaemonSetSpec =
     \<lparr>Selector = None,
      Template = \<lparr>tpl_ObjectMeta = zero_ObjectMeta, tpl_Spec = zero_PodSpec\<rparr>,
      MinReadySeconds = 0\<rparr>"

text \<open>\<^verbatim>\<open>GetLabels\<close> and \<^verbatim>\<open>SetLabels\<close> of \<^verbatim>\<open>metav1.ObjectMeta\<close>.\<close>

definition GetLabels :: "ObjectMeta \<Rightarrow> labels" where
  "GetLabels m = Labels m"

definition SetLabels :: "labels \<Rightarrow> ObjectMeta \<Rightarrow> ObjectMeta" where
  "SetLabels l m = m\<lparr>Labels := l\<rparr>"

subsection \<open>The tenant control plane\<close>

record KonnectivityAgentSpec =
  Image :: string
  Version :: string
  ExtraArgs :: "string list"

record KonnectivityServerSpec =
  Port :: int

record KonnectivitySpec =
  AgentSpec :: KonnectivityAgentSpec
  ServerSpec :: KonnectivityServerSpec

text \<open>\<^verbatim>\<open>kamajiv1alpha1.ExternalKubernetesObjectStatus\<close>; a time is a clock reading.\<close>

record ExternalKubernetesObjectStatus =
  st_Name :: string
  st_Namespace :: string
  st_LastUpdate :: nat

definition zero_ExternalKubernetesObjectStatus :: ExternalKubernetesObjectStatus where
  "zero_ExternalKubernetesObjectStatus = \<lparr>st_Name = [], st_Namespace = [], st_LastUpdate = 0\<rparr>"

record KonnectivityStatus =
  Agent :: ExternalKubernetesObjectStatus
  ClusterRoleBinding :: ExternalKubernetesObjectStatus

text \<open>
  The control plane as \<^verbatim>\<open>agent.go\<close> reads it. \<open>tcp_Name\<close> is what its
  \<^verbatim>\<open>GetName()\<close> returns, \<open>Spec_Konnectivity\<close> is the pointer
  \<^verbatim>\<open>Spec.Addons.Konnectivity\<close> (\<open>None\<close> is nil: the add-on is disabled),
  \<open>Status_Konnectivity\<close> is \<^verbatim>\<open>Status.Addons.Konnectivity\<close>. The method
  \<^verbatim>\<open>AssignedControlPlaneAddress\<close> is declared outside this file: the field of that name
  holds what it returns on this control plane, an error or the address and port.
\<close>

record TenantControlPlane =
  tcp_Name :: string
  Spec_Konnectivity :: "KonnectivitySpec option"
  Status_Konnectivity :: KonnectivityStatus
  AssignedControlPlaneAddress :: "error + string \<times> int"

subsection \<open>Declarations of the package that this file uses\<close>

text \<open>
  The constants \<^verbatim>\<open>AgentName\<close>, \<^verbatim>\<open>AgentNamespace\<close>, \<^verbatim>\<open>agentTokenName\<close> and the label
  helper \<^verbatim>\<open>utilities.KamajiLabels\<close> are declared elsewhere in the repository; they are
  parameters of the model.
\<close>

record pkg =
  AgentName :: string
  AgentNamespace :: string
  agentTokenName :: string
  KamajiLabels :: "string \<Rightarrow> string \<Rightarrow> labels"

subsection \<open>Helpers\<close>

text \<open>\<^verbatim>\<open>fmt.Sprintf("%d", n)\<close>: the decimal digits of an integer, with a sign when negative.\<close>

definition digit :: "nat \<Rightarrow> char" where
  "digit n = ''0123456789'' ! n"

fun digits :: "nat \<Rightarrow> string" where
  "digits n = (if n < 10 then [digit n] else digits (n div 10) @ [digit (n mod 10)])"

declare digits.simps [simp del]

definition Sprintf_d :: "int \<Rightarrow> string" where
  "Sprintf_d i = (if i < 0 then CHR ''-'' # digits (nat (- i)) else digits (nat i))"

text \<open>
  Modelled from the spec: \<^verbatim>\<open>utilities.MergeMaps\<close>, which is not in this file. The spec has
  the template labels merged, not replaced, with the labels this reconciler manages: the
  labels of the second map are set, every other label of the first map is kept.
\<close>

definition MergeMaps :: "labels \<Rightarrow> labels \<Rightarrow> labels" where
  "MergeMaps m1 m2 = m1 ++ m2"

text \<open>
  Modelled from the spec: \<^verbatim>\<open>utilities.ArgsFromSliceToMap\<close>, which is not in this file. An
  argument is written \<^verbatim>\<open>flag=value\<close> (section 6 of the spec); the map is keyed by flag
  name, and a later argument replaces an earlier one with the same flag. The map is an
  association list with one entry for each key.
\<close>

definition flag_of :: "string \<Rightarrow> string" where
  "flag_of arg = takeWhile (\<lambda>c. c \<noteq> CHR ''='') arg"

definition value_of :: "string \<Rightarrow> string" where
  "value_of arg = drop 1 (dropWhile (\<lambda>c. c \<noteq> CHR ''='') arg)"

definition ArgsFromSliceToMap :: "string list \<Rightarrow> (string \<times> string) list" where
  "ArgsFromSliceToMap args =
     foldl (\<lambda>m arg. AList.update (flag_of arg) (value_of arg) m) [] args"

text \<open>
  Modelled from the spec: \<^verbatim>\<open>utilities.ArgsFromMapToSlice\<close>, which is not in this file. The
  map is serialised to a flat list of \<^verbatim>\<open>flag=value\<close> arguments in sorted-key order.
\<close>

definition render :: "string \<times> string \<Rightarrow> string" where
  "render kv = fst kv @ ''='' @ snd kv"

definition ArgsFromMapToSlice :: "(string \<times> string) list \<Rightarrow> string list" where
  "ArgsFromMapToSlice m = map render (sort_key fst m)"

subsection \<open>\<^verbatim>\<open>Agent.mutate\<close>\<close>

text \<open>\<^verbatim>\<open>Agent.GetName\<close>.\<close>

definition GetName :: string where
  "GetName = ''konnectivity-agent''"

text \<open>The argument map of lines 167 to 176: the extra arguments, then the built-in ones.\<close>

definition agent_args :: "KonnectivitySpec \<Rightarrow> string \<Rightarrow> (string \<times> string) list" where
  "agent_args k address =
     (let args = ArgsFromSliceToMap (ExtraArgs (AgentSpec k));
          args = AList.update ''-v'' ''8'' args;
          args = AList.update ''--logtostderr'' ''true'' args;
          args = AList.update ''--ca-cert''
                   ''/var/run/secrets/kubernetes.io/serviceaccount/ca.crt'' args;
          args = AList.update ''--proxy-server-host'' address args;
          args = AList.update ''--proxy-server-port'' (Sprintf_d (Port (ServerSpec k))) args;
          args = AList.update ''--admin-server-port'' ''8133'' args;
          args = AList.update ''--health-server-port'' ''8134'' args;
          args = AList.update ''--service-account-token-path''
                   ''/var/run/secrets/tokens/konnectivity-agent-token'' args
      in args)"

text \<open>The volume list of lines 139 to 157.\<close>

definition agent_volumes :: "pkg \<Rightarrow> TenantControlPlane \<Rightarrow> Volume list" where
  "agent_volumes P tcp =
     [\<lparr>v_Name = agentTokenName P,
       v_Projected = Some
         \<lparr>Sources =
            [\<lparr>ServiceAccountToken = Some
                \<lparr>sat_Path = agentTokenName P,
                 sat_Audience = st_Name (ClusterRoleBinding (Status_Konnectivity tcp)),
                 sat_ExpirationSeconds = Some 3600\<rparr>\<rparr>],
          DefaultMode = Some 420\<rparr>\<rparr>]"

text \<open>The probe of lines 185 to 198.\<close>

definition agent_probe :: Probe where
  "agent_probe =
     \<lparr>HTTPGet = Some
        \<lparr>http_Path = ''/healthz'', http_Port = FromInt 8134, http_Host = [],
         http_Scheme = URISchemeHTTP\<rparr>,
      InitialDelaySeconds = 15,
      TimeoutSeconds = 15,
      PeriodSeconds = 10,
      SuccessThreshold = 1,
      FailureThreshold = 3\<rparr>"

text \<open>Lines 163 to 198: the writes to \<^verbatim>\<open>Containers[0]\<close>.\<close>

definition set_container :: "pkg \<Rightarrow> KonnectivitySpec \<Rightarrow> string \<Rightarrow> Container \<Rightarrow> Container" where
  "set_container P k address c =
     c\<lparr>c_Image := Image (AgentSpec k) @ '':'' @ Version (AgentSpec k),
       c_Name := AgentName P,
       c_Command := [''/proxy-agent''],
       c_Args := ArgsFromMapToSlice (agent_args k address),
       c_VolumeMounts :=
         [\<lparr>vm_MountPath = ''/var/run/secrets/tokens'', vm_Name = agentTokenName P,
           vm_ReadOnly = False, vm_SubPath = []\<rparr>],
       c_LivenessProbe := Some agent_probe\<rparr>"

text \<open>Lines 112 to 126: the labels and the selector.\<close>

definition set_labels :: "pkg \<Rightarrow> TenantControlPlane \<Rightarrow> DaemonSet \<Rightarrow> DaemonSet" where
  "set_labels P tcp r =
     (let r = r\<lparr>ds_ObjectMeta :=
                  SetLabels (KamajiLabels P (tcp_Name tcp) GetName) (ds_ObjectMeta r)\<rparr>;
          r = (if Selector (ds_Spec r) = None
               then r\<lparr>ds_Spec := (ds_Spec r)\<lparr>Selector := Some zero_LabelSelector\<rparr>\<rparr>
               else r);
          r = r\<lparr>ds_Spec := (ds_Spec r)\<lparr>Selector :=
                  map_option (\<lambda>s. s\<lparr>MatchLabels := [''k8s-app'' \<mapsto> AgentName P]\<rparr>)
                    (Selector (ds_Spec r))\<rparr>\<rparr>;
          r = r\<lparr>ds_Spec := ds_Spec r\<lparr>Template := Template (ds_Spec r)\<lparr>tpl_ObjectMeta :=
                  SetLabels
                    (MergeMaps (GetLabels (tpl_ObjectMeta (Template (ds_Spec r))))
                       [''k8s-app'' \<mapsto> AgentName P])
                    (tpl_ObjectMeta (Template (ds_Spec r)))\<rparr>\<rparr>\<rparr>
      in r)"

text \<open>Lines 128 to 161: scheduling, the token volume, and the container slot.\<close>

definition set_pod :: "pkg \<Rightarrow> TenantControlPlane \<Rightarrow> PodSpec \<Rightarrow> PodSpec" where
  "set_pod P tcp ps =
     (let ps = ps\<lparr>PriorityClassName := ''system-cluster-critical''\<rparr>;
          ps = ps\<lparr>Tolerations :=
                  [\<lparr>t_Key = ''CriticalAddonsOnly'', t_Operator = ''Exists'',
                    t_Value = [], t_Effect = []\<rparr>]\<rparr>;
          ps = ps\<lparr>NodeSelector := [''kubernetes.io/os'' \<mapsto> ''linux'']\<rparr>;
          ps = ps\<lparr>ServiceAccountName := AgentName P\<rparr>;
          ps = ps\<lparr>Volumes := agent_volumes P tcp\<rparr>;
          ps = (if length (Containers ps) \<noteq> 1
                then ps\<lparr>Containers := [zero_Container]\<rparr>
                else ps)
      in ps)"

definition with_pod :: "(PodSpec \<Rightarrow> PodSpec) \<Rightarrow> DaemonSet \<Rightarrow> DaemonSet" where
  "with_pod f r =
     r\<lparr>ds_Spec := ds_Spec r\<lparr>Template := Template (ds_Spec r)\<lparr>tpl_Spec :=
         f (tpl_Spec (Template (ds_Spec r)))\<rparr>\<rparr>\<rparr>"

text \<open>
  The closure that \<^verbatim>\<open>mutate\<close> returns, run on the managed object \<open>r\<close>
  (\<^verbatim>\<open>r.resource\<close>). It returns its error and the object as it has left it. The address
  comes first: on an error nothing has been written. Line 163 dereferences
  \<^verbatim>\<open>Spec.Addons.Konnectivity\<close>, a nil pointer when the add-on is disabled.
\<close>

definition mutate :: "pkg \<Rightarrow> TenantControlPlane \<Rightarrow> DaemonSet \<Rightarrow> (error option \<times> DaemonSet) exec" where
  "mutate P tcp r =
     (case AssignedControlPlaneAddress tcp of
        Inl err \<Rightarrow> Returns (Some err, r)
      | Inr (address, _) \<Rightarrow>
          (let r = set_labels P tcp r;
               r = with_pod (set_pod P tcp) r
           in case Spec_Konnectivity tcp of
                None \<Rightarrow> Panics
              | Some k \<Rightarrow>
                  Returns (None,
                    with_pod (\<lambda>ps. ps\<lparr>Containers :=
                      (Containers ps)[0 := set_container P k address (Containers ps ! 0)]\<rparr>) r)))"

subsection \<open>The tenant cluster's store and its client\<close>

text \<open>
  The remote store behind \<^verbatim>\<open>tenantClient\<close>: the objects it holds under their identity
  (namespace and name), the calls that have reached it, and the failures ahead of it. Each
  call takes the head of \<open>faults\<close>: \<open>Some msg\<close> makes the call fail with
  \<open>StoreError msg\<close> and leaves the objects alone, \<open>None\<close> (or no entry) lets it
  through. "Not found" is the store's answer for an absent object.
\<close>

type_synonym ObjectKey = "string \<times> string"

datatype call = GetCall ObjectKey | CreateCall ObjectKey | UpdateCall ObjectKey | DeleteCall ObjectKey

record client =
  objects :: "ObjectKey \<rightharpoonup> DaemonSet"
  calls :: "call list"
  faults :: "string option list"

definition ObjectKeyFromObject :: "DaemonSet \<Rightarrow> ObjectKey" where
  "ObjectKeyFromObject obj = (Namespace (ds_ObjectMeta obj), Name (ds_ObjectMeta obj))"

definition next_fault :: "client \<Rightarrow> string option" where
  "next_fault c = (case faults c of [] \<Rightarrow> None | f # _ \<Rightarrow> f)"

definition called :: "call \<Rightarrow> client \<Rightarrow> client" where
  "called x c = c\<lparr>calls := calls c @ [x], faults := drop 1 (faults c)\<rparr>"

definition Get :: "client \<Rightarrow> ObjectKey \<Rightarrow> (error + DaemonSet) \<times> client" where
  "Get c key =
     (let c1 = called (GetCall key) c
      in case next_fault c of
           Some msg \<Rightarrow> (Inl (StoreError msg), c1)
         | None \<Rightarrow>
             (case objects c key of
                None \<Rightarrow> (Inl (NotFoundError (snd key)), c1)
              | Some stored \<Rightarrow> (Inr stored, c1)))"

definition Create :: "client \<Rightarrow> DaemonSet \<Rightarrow> error option \<times> client" where
  "Create c obj =
     (let key = ObjectKeyFromObject obj; c1 = called (CreateCall key) c
      in case next_fault c of
           Some msg \<Rightarrow> (Some (StoreError msg), c1)
         | None \<Rightarrow>
             (case objects c key of
                None \<Rightarrow> (None, c1\<lparr>objects := (objects c)(key \<mapsto> obj)\<rparr>)
              | Some _ \<Rightarrow> (Some (StoreError ''already exists''), c1)))"

definition Update :: "client \<Rightarrow> DaemonSet \<Rightarrow> error option \<times> client" where
  "Update c obj =
     (let key = ObjectKeyFromObject obj; c1 = called (UpdateCall key) c
      in case next_fault c of
           Some msg \<Rightarrow> (Some (StoreError msg), c1)
         | None \<Rightarrow>
             (case objects c key of
                None \<Rightarrow> (Some (NotFoundError (snd key)), c1)
              | Some _ \<Rightarrow> (None, c1\<lparr>objects := (objects c)(key \<mapsto> obj)\<rparr>)))"

definition Delete :: "client \<Rightarrow> DaemonSet \<Rightarrow> error option \<times> client" where
  "Delete c obj =
     (let key = ObjectKeyFromObject obj; c1 = called (DeleteCall key) c
      in case next_fault c of
           Some msg \<Rightarrow> (Some (StoreError msg), c1)
         | None \<Rightarrow>
             (case objects c key of
                None \<Rightarrow> (Some (NotFoundError (snd key)), c1)
              | Some _ \<Rightarrow> (None, c1\<lparr>objects := (objects c)(key := None)\<rparr>)))"

subsection \<open>The create-or-update primitive\<close>

text \<open>
  \<^verbatim>\<open>controllerutil.CreateOrUpdate\<close> of controller-runtime, as section 4 of the spec has it:
  it reads the object by identity, runs the mutate function on what it has read (on the
  object in memory when the store has none), aborts on an error of the mutate function
  before any write, creates the object when the store had none, and otherwise updates it
  when the mutate function has changed it. A mutate function may not change the identity.
\<close>

datatype OperationResult = OperationResultNone | OperationResultCreated | OperationResultUpdated

type_synonym MutateFn = "DaemonSet \<Rightarrow> (error option \<times> DaemonSet) exec"

definition run_mutate :: "MutateFn \<Rightarrow> ObjectKey \<Rightarrow> DaemonSet \<Rightarrow> (error option \<times> DaemonSet) exec" where
  "run_mutate f key obj =
     (case f obj of
        Panics \<Rightarrow> Panics
      | Returns (Some err, obj1) \<Rightarrow> Returns (Some err, obj1)
      | Returns (None, obj1) \<Rightarrow>
          (if ObjectKeyFromObject obj1 \<noteq> key then Returns (Some MutateKeyError, obj1)
           else Returns (None, obj1)))"

definition controllerutil_CreateOrUpdate ::
  "client \<Rightarrow> DaemonSet \<Rightarrow> MutateFn \<Rightarrow> ((OperationResult \<times> error option) \<times> client \<times> DaemonSet) exec" where
  "controllerutil_CreateOrUpdate c obj f =
     (let key = ObjectKeyFromObject obj
      in case Get c key of
           (Inl err, c1) \<Rightarrow>
             (if \<not> IsNotFound err then Returns ((OperationResultNone, Some err), c1, obj)
              else
                (case run_mutate f key obj of
                   Panics \<Rightarrow> Panics
                 | Returns (Some err, obj1) \<Rightarrow> Returns ((OperationResultNone, Some err), c1, obj1)
                 | Returns (None, obj1) \<Rightarrow>
                     (case Create c1 obj1 of
                        (Some err, c2) \<Rightarrow> Returns ((OperationResultNone, Some err), c2, obj1)
                      | (None, c2) \<Rightarrow> Returns ((OperationResultCreated, None), c2, obj1))))
         | (Inr existing, c1) \<Rightarrow>
             (case run_mutate f key existing of
                Panics \<Rightarrow> Panics
              | Returns (Some err, obj1) \<Rightarrow> Returns ((OperationResultNone, Some err), c1, obj1)
              | Returns (None, obj1) \<Rightarrow>
                  (if existing = obj1 then Returns ((OperationResultNone, None), c1, obj1)
                   else
                     (case Update c1 obj1 of
                        (Some err, c2) \<Rightarrow> Returns ((OperationResultNone, Some err), c2, obj1)
                      | (None, c2) \<Rightarrow> Returns ((OperationResultUpdated, None), c2, obj1)))))"

subsection \<open>The \<^verbatim>\<open>Agent\<close> and its lifecycle methods\<close>

text \<open>
  The struct \<^verbatim>\<open>Agent\<close>: \<open>resource\<close> and \<open>tenantClient\<close> are nil until
  \<^verbatim>\<open>Define\<close> has set them. (The field \<^verbatim>\<open>Client\<close> is only handed to
  \<^verbatim>\<open>utilities.GetTenantClient\<close>, a parameter below.)
\<close>

record Agent =
  resource :: "DaemonSet option"
  tenantClient :: "client option"

definition ShouldStatusBeUpdated :: "TenantControlPlane \<Rightarrow> bool" where
  "ShouldStatusBeUpdated tcp \<longleftrightarrow>
     Spec_Konnectivity tcp = None \<and>
     length (st_Namespace (Agent (Status_Konnectivity tcp))) = 0"

definition ShouldCleanup :: "TenantControlPlane \<Rightarrow> bool" where
  "ShouldCleanup tcp \<longleftrightarrow> Spec_Konnectivity tcp = None"

text \<open>\<^verbatim>\<open>CleanUp\<close> returns its two results and the agent, whose client has made the call.\<close>

definition CleanUp :: "Agent \<Rightarrow> ((bool \<times> error option) \<times> Agent) exec" where
  "CleanUp r =
     (case tenantClient r of
        None \<Rightarrow> Panics
      | Some c \<Rightarrow>
          (case resource r of
             None \<Rightarrow> Panics
           | Some obj \<Rightarrow>
               (case Delete c obj of
                  (Some err, c1) \<Rightarrow>
                    (if IsNotFound err then Returns ((False, None), r\<lparr>tenantClient := Some c1\<rparr>)
                     else Returns ((False, Some err), r\<lparr>tenantClient := Some c1\<rparr>))
                | (None, c1) \<Rightarrow> Returns ((True, None), r\<lparr>tenantClient := Some c1\<rparr>))))"

text \<open>
  \<^verbatim>\<open>Define\<close>; \<open>GetTenantClient\<close> stands for \<^verbatim>\<open>utilities.GetTenantClient\<close>, declared
  elsewhere in the repository: the client and the error that it returns for this control
  plane.
\<close>

definition Define ::
  "pkg \<Rightarrow> (TenantControlPlane \<Rightarrow> client option \<times> error option) \<Rightarrow> Agent \<Rightarrow> TenantControlPlane
     \<Rightarrow> error option \<times> Agent" where
  "Define P GetTenantClient r tcp =
     (let r = r\<lparr>resource := Some
                 \<lparr>ds_ObjectMeta = zero_ObjectMeta\<lparr>Name := AgentName P, Namespace := AgentNamespace P\<rparr>,
                  ds_Spec = zero_DaemonSetSpec\<rparr>\<rparr>;
          (tc, err) = GetTenantClient tcp;
          r = r\<lparr>tenantClient := tc\<rparr>
      in (err, r))"

definition CreateOrUpdate ::
  "pkg \<Rightarrow> Agent \<Rightarrow> TenantControlPlane \<Rightarrow> ((OperationResult \<times> error option) \<times> Agent) exec" where
  "CreateOrUpdate P r tcp =
     (if Spec_Konnectivity tcp \<noteq> None then
        (case tenantClient r of
           None \<Rightarrow> Panics
         | Some c \<Rightarrow>
             (case resource r of
                None \<Rightarrow> Panics
              | Some obj \<Rightarrow>
                  (case controllerutil_CreateOrUpdate c obj (mutate P tcp) of
                     Panics \<Rightarrow> Panics
                   | Returns (res, c1, obj1) \<Rightarrow>
                       Returns (res, \<lparr>resource = Some obj1, tenantClient = Some c1\<rparr>))))
      else Returns ((OperationResultNone, None), r))"

text \<open>
  \<^verbatim>\<open>UpdateTenantControlPlaneStatus\<close> writes to the control plane it is given and returns
  an error value; \<open>now\<close> is what \<^verbatim>\<open>metav1.Now()\<close> reads off the clock.
\<close>

definition UpdateTenantControlPlaneStatus ::
  "nat \<Rightarrow> Agent \<Rightarrow> TenantControlPlane \<Rightarrow> (error option \<times> TenantControlPlane) exec" where
  "UpdateTenantControlPlaneStatus now r tcp =
     (if Spec_Konnectivity tcp \<noteq> None then
        (case resource r of
           None \<Rightarrow> Panics
         | Some obj \<Rightarrow>
             Returns (None,
               tcp\<lparr>Status_Konnectivity := (Status_Konnectivity tcp)\<lparr>Agent :=
                 \<lparr>st_Name = Name (ds_ObjectMeta obj),
                  st_Namespace = Namespace (ds_ObjectMeta obj),
                  st_LastUpdate = now\<rparr>\<rparr>\<rparr>))
      else
        Returns (None,
          tcp\<lparr>Status_Konnectivity := (Status_Konnectivity tcp)\<lparr>Agent :=
            zero_ExternalKubernetesObjectStatus\<rparr>\<rparr>))"

subsection \<open>The reconcile pass\<close>

text \<open>
  Modelled from the spec: the reconcile pass of the lifecycle controller, which calls the
  methods of the agent and is not in this file. Sections 2, 4.1 and 5 of the spec give its
  order: initialise (\<^verbatim>\<open>Define\<close>), then clean up when \<^verbatim>\<open>ShouldCleanup\<close> holds and
  create or update otherwise, then the status synchroniser. Section 7 gives its error
  policy: every error aborts the pass and is returned to the caller, and the status is only
  overwritten on completion of a pass. The pass returns its error, the agent, and the
  control plane as it has left it.
\<close>

definition ReconcilePass ::
  "pkg \<Rightarrow> (TenantControlPlane \<Rightarrow> client option \<times> error option) \<Rightarrow> nat \<Rightarrow> Agent
     \<Rightarrow> TenantControlPlane \<Rightarrow> (error option \<times> Agent \<times> TenantControlPlane) exec" where
  "ReconcilePass P GetTenantClient now r tcp =
     (case Define P GetTenantClient r tcp of
        (Some err, r1) \<Rightarrow> Returns (Some err, r1, tcp)
      | (None, r1) \<Rightarrow>
          (case (if ShouldCleanup tcp
                 then (case CleanUp r1 of
                         Panics \<Rightarrow> Panics
                       | Returns ((_, err), r2) \<Rightarrow> Returns (err, r2))
                 else (case CreateOrUpdate P r1 tcp of
                         Panics \<Rightarrow> Panics
                       | Returns ((_, err), r2) \<Rightarrow> Returns (err, r2))) of
             Panics \<Rightarrow> Panics
           | Returns (Some err, r2) \<Rightarrow> Returns (Some err, r2, tcp)
           | Returns (None, r2) \<Rightarrow>
               (case UpdateTenantControlPlaneStatus now r2 tcp of
                  Panics \<Rightarrow> Panics
                | Returns (err, tcp1) \<Rightarrow> Returns (err, r2, tcp1))))"

subsection \<open>Example inputs\<close>

text \<open>
  The values of the constants as the tenant cluster sees them, and the example of section 8
  of the spec: image \<^verbatim>\<open>agent\<close>, version \<^verbatim>\<open>v1\<close>, port 8132 and the extra argument
  \<^verbatim>\<open>--logtostderr=false\<close>.
\<close>

definition example_pkg :: pkg where
  "example_pkg =
     \<lparr>AgentName = ''konnectivity-agent'',
      AgentNamespace = ''kube-system'',
      agentTokenName = ''konnectivity-agent-token'',
      KamajiLabels = (\<lambda>tcp component.
        [''kamaji.clastix.io/name'' \<mapsto> tcp, ''kamaji.clastix.io/component'' \<mapsto> component])\<rparr>"

definition example_spec :: KonnectivitySpec where
  "example_spec =
     \<lparr>AgentSpec = \<lparr>Image = ''agent'', Version = ''v1'', ExtraArgs = [''--logtostderr=false'']\<rparr>,
      ServerSpec = \<lparr>Port = 8132\<rparr>\<rparr>"

definition example_status :: KonnectivityStatus where
  "example_status =
     \<lparr>Agent = \<lparr>st_Name = ''konnectivity-agent'', st_Namespace = ''kube-system'', st_LastUpdate = 7\<rparr>,
      ClusterRoleBinding =
        \<lparr>st_Name = ''system:konnectivity-server'', st_Namespace = [], st_LastUpdate = 5\<rparr>\<rparr>"

text \<open>An enabled control plane whose address is resolved.\<close>

definition example_tcp :: TenantControlPlane where
  "example_tcp =
     \<lparr>tcp_Name = ''tenant-a'',
      Spec_Konnectivity = Some example_spec,
      Status_Konnectivity = example_status,
      AssignedControlPlaneAddress = Inr (''203.0.113.10'', 6443)\<rparr>"

text \<open>The same control plane before it is exposed: the address does not resolve.\<close>

definition example_error :: error where
  "example_error = AddressResolutionError ''the Tenant Control Plane is not yet exposed''"

definition example_unexposed_tcp :: TenantControlPlane where
  "example_unexposed_tcp = example_tcp\<lparr>AssignedControlPlaneAddress := Inl example_error\<rparr>"

text \<open>The same control plane with the add-on disabled, its status still populated.\<close>

definition example_disabled_tcp :: TenantControlPlane where
  "example_disabled_tcp = example_tcp\<lparr>Spec_Konnectivity := None\<rparr>"

text \<open>The object as \<^verbatim>\<open>Define\<close> builds it.\<close>

definition example_resource :: DaemonSet where
  "example_resource =
     \<lparr>ds_ObjectMeta = zero_ObjectMeta\<lparr>Name := ''konnectivity-agent'', Namespace := ''kube-system''\<rparr>,
      ds_Spec = zero_DaemonSetSpec\<rparr>"

text \<open>
  An object as the store may hold it: a template label of its own, the managed label with
  another value, and one container with an environment variable.
\<close>

definition example_container :: Container where
  "example_container = zero_Container\<lparr>c_Name := ''agent'', c_Env := [(''HTTP_PROXY'', ''proxy:3128'')]\<rparr>"

definition example_existing :: DaemonSet where
  "example_existing =
     example_resource\<lparr>ds_Spec := zero_DaemonSetSpec\<lparr>Template :=
       \<lparr>tpl_ObjectMeta = zero_ObjectMeta\<lparr>Labels := [''team'' \<mapsto> ''net'', ''k8s-app'' \<mapsto> ''other'']\<rparr>,
        tpl_Spec = zero_PodSpec\<lparr>Containers := [example_container]\<rparr>\<rparr>\<rparr>\<rparr>"

text \<open>A store that holds that object and answers every call, and an agent on it.\<close>

definition example_client :: client where
  "example_client =
     \<lparr>objects = [(''kube-system'', ''konnectivity-agent'') \<mapsto> example_existing],
      calls = [],
      faults = []\<rparr>"

definition example_agent :: Agent where
  "example_agent = \<lparr>resource = Some example_resource, tenantClient = Some example_client\<rparr>"

text \<open>A tenant client resolver that hands out that store.\<close>

definition example_GetTenantClient :: "TenantControlPlane \<Rightarrow> client option \<times> error option" where
  "example_GetTenantClient tcp = (Some example_client, None)"

section \<open>Properties\<close>

subsection \<open>Auxiliary facts\<close>

lemma foldl_update_keys:
  "fst ` set (foldl (\<lambda>m arg. AList.update (f arg) (g arg) m) m0 args) \<subseteq> fst ` set m0 \<union> f ` set args"
proof (induction args arbitrary: m0)
  case Nil
  then show ?case by simp
next
  case (Cons a args)
  have "fst ` set (foldl (\<lambda>m arg. AList.update (f arg) (g arg) m) (AList.update (f a) (g a) m0) args)
        \<subseteq> fst ` set (AList.update (f a) (g a) m0) \<union> f ` set args"
    by (rule Cons.IH)
  also have "\<dots> = insert (f a) (fst ` set m0) \<union> f ` set args"
    by (simp add: AList.dom_update)
  finally show ?case by auto
qed

lemma foldl_update_distinct:
  "distinct (map fst m0) \<Longrightarrow> distinct (map fst (foldl (\<lambda>m arg. AList.update (f arg) (g arg) m) m0 args))"
  by (induction args arbitrary: m0) (simp_all add: AList.distinct_update)

lemma flag_of_no_eq: "CHR ''='' \<notin> set (flag_of arg)"
  unfolding flag_of_def by (induction arg) auto

lemma ArgsFromSliceToMap_keys:
  assumes "(f, v) \<in> set (ArgsFromSliceToMap args)"
  shows "CHR ''='' \<notin> set f"
proof -
  have "f \<in> fst ` set (ArgsFromSliceToMap args)" using assms by force
  then have "f \<in> flag_of ` set args"
    using foldl_update_keys[of flag_of value_of "[]" args]
    unfolding ArgsFromSliceToMap_def by auto
  then show ?thesis using flag_of_no_eq by auto
qed

lemma ArgsFromSliceToMap_distinct: "distinct (map fst (ArgsFromSliceToMap args))"
  unfolding ArgsFromSliceToMap_def by (rule foldl_update_distinct) simp

lemma flag_of_render: "CHR ''='' \<notin> set f \<Longrightarrow> flag_of (render (f, v)) = f"
  by (induction f) (auto simp: flag_of_def render_def)

lemma set_ArgsFromMapToSlice: "set (ArgsFromMapToSlice m) = render ` set m"
  by (simp add: ArgsFromMapToSlice_def)


text \<open>
  Go enumerates a map in no fixed order. The serialisation does not depend on the order in
  which the entries of the map are listed.
\<close>

lemma alist_eq_by_keys:
  assumes "map fst xs = map fst ys" and "distinct (map fst xs)" and "set xs = set ys"
  shows "xs = ys"
proof -
  have len: "length xs = length ys" using assms(1) by (metis length_map)
  from len assms show ?thesis
  proof (induction xs ys rule: list_induct2)
    case Nil
    then show ?case by simp
  next
    case (Cons x xs y ys)
    from Cons.prems(1) have k: "fst x = fst y" and ks: "map fst xs = map fst ys" by simp_all
    from Cons.prems(2) have d: "distinct (map fst xs)" and nx: "fst x \<notin> set (map fst xs)" by simp_all
    from nx ks have ny: "fst y \<notin> set (map fst ys)" using k by simp
    have "x \<in> set (y # ys)" using Cons.prems(3) by auto
    moreover have "x \<notin> set ys" using nx ks by (metis image_eqI list.set_map)
    ultimately have xy: "x = y" by simp
    have "x \<notin> set xs" using nx by (metis image_eqI list.set_map)
    moreover have "y \<notin> set ys" using ny by (metis image_eqI list.set_map)
    ultimately have "set xs = set ys" using Cons.prems(3) xy by auto
    with Cons.IH ks d xy show ?case by simp
  qed
qed

lemma ArgsFromMapToSlice_any_order:
  assumes "distinct (map fst m)" and "distinct (map fst m')" and "set m' = set m"
  shows "ArgsFromMapToSlice m' = ArgsFromMapToSlice m"
proof -
  have k: "map fst (sort_key fst m') = map fst (sort_key fst m)"
  proof (rule sorted_distinct_set_unique)
    show "sorted (map fst (sort_key fst m'))" by simp
    show "sorted (map fst (sort_key fst m))" by simp
    show "distinct (map fst (sort_key fst m'))" using assms(2) by (simp add: distinct_map)
    show "distinct (map fst (sort_key fst m))" using assms(1) by (simp add: distinct_map)
    show "set (map fst (sort_key fst m')) = set (map fst (sort_key fst m))" using assms(3) by simp
  qed
  have "sort_key fst m' = sort_key fst m"
  proof (rule alist_eq_by_keys[OF k])
    show "distinct (map fst (sort_key fst m'))" using assms(2) by (simp add: distinct_map)
    show "set (sort_key fst m') = set (sort_key fst m)" using assms(3) by simp
  qed
  then show ?thesis by (simp add: ArgsFromMapToSlice_def)
qed

lemma set_pod_Containers:
  "Containers (set_pod P tcp ps) = (if length (Containers ps) \<noteq> 1 then [zero_Container] else Containers ps)"
  by (simp add: set_pod_def Let_def)

lemma pod_with_pod: "pod (with_pod f r) = f (pod r)"
  by (simp add: with_pod_def)

lemma pod_set_labels: "pod (set_labels P tcp r) = pod r"
  by (simp add: set_labels_def Let_def)

lemma mutate_Returns_None_iff:
  "mutate P tcp r = Returns (None, r') \<longleftrightarrow>
     (\<exists>k address port. Spec_Konnectivity tcp = Some k \<and> AssignedControlPlaneAddress tcp = Inr (address, port)
        \<and> r' = with_pod (\<lambda>ps. ps\<lparr>Containers :=
                      (Containers ps)[0 := set_container P k address (Containers ps ! 0)]\<rparr>)
                 (with_pod (set_pod P tcp) (set_labels P tcp r)))"
  by (auto simp: mutate_def Let_def split: sum.splits option.splits prod.splits)

lemma mutate_Containers:
  assumes "mutate P tcp r = Returns (None, r')"
  shows "\<exists>k address port. Spec_Konnectivity tcp = Some k \<and> AssignedControlPlaneAddress tcp = Inr (address, port)
     \<and> Containers (pod r') =
          [set_container P k address
             (if length (Containers (pod r)) \<noteq> 1 then zero_Container else hd (Containers (pod r)))]"
proof -
  from assms obtain k address port where
    k: "Spec_Konnectivity tcp = Some k" and a: "AssignedControlPlaneAddress tcp = Inr (address, port)"
    and r': "r' = with_pod (\<lambda>ps. ps\<lparr>Containers :=
                      (Containers ps)[0 := set_container P k address (Containers ps ! 0)]\<rparr>)
                 (with_pod (set_pod P tcp) (set_labels P tcp r))"
    unfolding mutate_Returns_None_iff by blast
  have "Containers (pod r') =
          [set_container P k address
             (if length (Containers (pod r)) \<noteq> 1 then zero_Container else hd (Containers (pod r)))]"
  proof (cases "Containers (pod r)")
    case Nil
    then show ?thesis by (simp add: r' pod_with_pod pod_set_labels set_pod_Containers)
  next
    case (Cons c cs)
    then show ?thesis by (cases cs) (simp_all add: r' pod_with_pod pod_set_labels set_pod_Containers)
  qed
  with k a show ?thesis by blast
qed

lemma mutate_succeeds:
  "Spec_Konnectivity tcp = Some k \<Longrightarrow> AssignedControlPlaneAddress tcp = Inr ap \<Longrightarrow> \<exists>r'. mutate P tcp r = Returns (None, r')"
  by (cases ap) (simp add: mutate_def Let_def)




lemma agent_args_map_of:
  "map_of (agent_args k address) =
     (map_of (ArgsFromSliceToMap (ExtraArgs (AgentSpec k))))
       (''-v'' \<mapsto> ''8'',
        ''--logtostderr'' \<mapsto> ''true'',
        ''--ca-cert'' \<mapsto> ''/var/run/secrets/kubernetes.io/serviceaccount/ca.crt'',
        ''--proxy-server-host'' \<mapsto> address,
        ''--proxy-server-port'' \<mapsto> Sprintf_d (Port (ServerSpec k)),
        ''--admin-server-port'' \<mapsto> ''8133'',
        ''--health-server-port'' \<mapsto> ''8134'',
        ''--service-account-token-path'' \<mapsto> ''/var/run/secrets/tokens/konnectivity-agent-token'')"
  by (simp add: agent_args_def Let_def update_conv')



lemma agent_args_distinct: "distinct (map fst (agent_args k address))"
  by (simp add: agent_args_def Let_def distinct_update ArgsFromSliceToMap_distinct)




lemma update_keys_no_eq:
  assumes "\<forall>f \<in> fst ` set al. CHR ''='' \<notin> set f" and "CHR ''='' \<notin> set k"
  shows "\<forall>f \<in> fst ` set (AList.update k v al). CHR ''='' \<notin> set f"
  using assms unfolding dom_update by simp

lemma ArgsFromSliceToMap_keys_all:
  "\<forall>f \<in> fst ` set (ArgsFromSliceToMap args). CHR ''='' \<notin> set f"
  using ArgsFromSliceToMap_keys by force

lemma agent_args_keys_all: "\<forall>f \<in> fst ` set (agent_args k address). CHR ''='' \<notin> set f"
  unfolding agent_args_def Let_def
  by (intro update_keys_no_eq ArgsFromSliceToMap_keys_all) simp_all

lemma agent_args_keys:
  assumes "(f, v) \<in> set (agent_args k address)"
  shows "CHR ''='' \<notin> set f"
  using agent_args_keys_all assms by force



lemma builtin_wins:
  assumes "map_of (agent_args k address) K = Some V"
  shows "K @ ''='' @ V \<in> set (ArgsFromMapToSlice (agent_args k address)) \<and>
         (\<forall>arg \<in> set (ArgsFromMapToSlice (agent_args k address)). flag_of arg = K \<longrightarrow> arg = K @ ''='' @ V)"
proof
  have "(K, V) \<in> set (agent_args k address)" using assms by (rule map_of_SomeD)
  then have "render (K, V) \<in> render ` set (agent_args k address)" by (rule imageI)
  then show "K @ ''='' @ V \<in> set (ArgsFromMapToSlice (agent_args k address))"
    by (simp add: set_ArgsFromMapToSlice render_def)
next
  show "\<forall>arg \<in> set (ArgsFromMapToSlice (agent_args k address)). flag_of arg = K \<longrightarrow> arg = K @ ''='' @ V"
  proof (intro ballI impI)
    fix arg assume "arg \<in> set (ArgsFromMapToSlice (agent_args k address))" and K: "flag_of arg = K"
    then obtain f v where fv: "(f, v) \<in> set (agent_args k address)" and arg: "arg = render (f, v)"
      unfolding set_ArgsFromMapToSlice by auto
    have "flag_of (render (f, v)) = f" using agent_args_keys[OF fv] by (rule flag_of_render)
    with K arg have "f = K" by simp
    with fv have "map_of (agent_args k address) K = Some v"
      using agent_args_distinct by (simp add: map_of_is_SomeI)
    with assms have "v = V" by simp
    with arg \<open>f = K\<close> show "arg = K @ ''='' @ V" by (simp add: render_def)
  qed
qed

lemma builtin_map_of:
  "\<forall>b \<in> {(''-v'', ''8''),
             (''--logtostderr'', ''true''),
             (''--ca-cert'', ''/var/run/secrets/kubernetes.io/serviceaccount/ca.crt''),
             (''--proxy-server-host'', address),
             (''--proxy-server-port'', Sprintf_d (Port (ServerSpec k))),
             (''--admin-server-port'', ''8133''),
             (''--health-server-port'', ''8134''),
             (''--service-account-token-path'', ''/var/run/secrets/tokens/konnectivity-agent-token'')}.
         map_of (agent_args k address) (fst b) = Some (snd b)"
    by (simp add: agent_args_map_of)

lemmas mutate_defs = mutate_def set_labels_def set_pod_def with_pod_def Let_def SetLabels_def GetLabels_def MergeMaps_def

text \<open>The unresolved address, through the primitive and through the pass.\<close>

lemma mutate_unresolved:
  "AssignedControlPlaneAddress tcp = Inl err \<Longrightarrow> mutate P tcp r = Returns (Some err, r)"
  by (simp add: mutate_def)

lemma CreateOrUpdate_unresolved:
  assumes "AssignedControlPlaneAddress tcp = Inl err"
    and "resource ag = Some obj \<and> tenantClient ag = Some c"
  shows "\<exists>res ag' c'.
          CreateOrUpdate P ag tcp = Returns ((OperationResultNone, res), ag') \<and>
          tenantClient ag' = Some c' \<and>
          objects c' = objects c \<and>
          (calls c' = calls c \<or> calls c' = calls c @ [GetCall (ObjectKeyFromObject obj)]) \<and>
          (Spec_Konnectivity tcp \<noteq> None \<longrightarrow>
             res = Some err \<or> (\<exists>msg. res = Some (StoreError msg)))"
proof (cases "Spec_Konnectivity tcp")
  case None
  with assms(2) show ?thesis by (simp add: CreateOrUpdate_def)
next
  case (Some k)
  with assms(2) show ?thesis
    by (auto simp: CreateOrUpdate_def controllerutil_CreateOrUpdate_def Get_def run_mutate_def
          called_def mutate_unresolved[OF assms(1)] Let_def split: option.splits)
qed

lemma CreateOrUpdate_unresolved_error:
  assumes "AssignedControlPlaneAddress tcp = Inl err" and "Spec_Konnectivity tcp \<noteq> None"
    and "CreateOrUpdate P ag tcp = Returns ((res, e), ag')"
  shows "e \<noteq> None"
proof -
  from assms(2,3) obtain obj c where ag: "resource ag = Some obj \<and> tenantClient ag = Some c"
    by (auto simp: CreateOrUpdate_def split: option.splits)
  from CreateOrUpdate_unresolved[OF assms(1) ag, of P] assms(2,3) show ?thesis by auto
qed

lemma ReconcilePass_unresolved_safe:
  assumes "AssignedControlPlaneAddress tcp = Inl err" and "Spec_Konnectivity tcp \<noteq> None"
    and "ReconcilePass P G now r0 tcp = Returns (e, r1, tcp')"
  shows "e \<noteq> None \<and> tcp' = tcp"
proof (cases "Define P G r0 tcp")
  case (Pair de dr)
  from assms(2) obtain k where k: "Spec_Konnectivity tcp = Some k" by auto
  show ?thesis
  proof (cases de)
    case (Some x)
    with Pair assms(3) show ?thesis by (auto simp: ReconcilePass_def)
  next
    case None
    show ?thesis
    proof (cases "CreateOrUpdate P dr tcp")
      case Panics
      with Pair None k assms(3) show ?thesis
        by (simp add: ReconcilePass_def ShouldCleanup_def)
    next
      case (Returns x)
      obtain res ce ag' where x: "x = ((res, ce), ag')" by (metis prod.exhaust)
      from CreateOrUpdate_unresolved_error[OF assms(1,2)] Returns x have "ce \<noteq> None" by simp
      with Pair None Returns x k assms(3) show ?thesis
        by (auto simp: ReconcilePass_def ShouldCleanup_def)
    qed
  qed
qed

lemma ReconcilePass_unresolved_returns:
  assumes "AssignedControlPlaneAddress tcp = Inl err" and "Spec_Konnectivity tcp \<noteq> None"
    and "G tcp = (Some c, None)"
  shows "\<exists>e r1 c1. ReconcilePass P G now r0 tcp = Returns (Some e, r1, tcp) \<and>
           tenantClient r1 = Some c1 \<and> objects c1 = objects c \<and>
           (e = err \<or> (\<exists>msg. e = StoreError msg))"
proof -
  from assms(2) obtain k where k: "Spec_Konnectivity tcp = Some k" by auto
  define r where "r = snd (Define P G r0 tcp)"
  have d: "Define P G r0 tcp = (None, r)"
    by (simp add: r_def Define_def Let_def assms(3))
  have "\<exists>obj. resource r = Some obj \<and> tenantClient r = Some c"
    by (simp add: r_def Define_def Let_def assms(3))
  then obtain obj where ag: "resource r = Some obj \<and> tenantClient r = Some c" ..
  from CreateOrUpdate_unresolved[OF assms(1) ag, of P] assms(2)
  obtain res ag' c' where
    "CreateOrUpdate P r tcp = Returns ((OperationResultNone, res), ag')"
    "tenantClient ag' = Some c'" "objects c' = objects c"
    "res = Some err \<or> (\<exists>msg. res = Some (StoreError msg))"
    by blast
  with d k show ?thesis
    by (auto simp: ReconcilePass_def ShouldCleanup_def)
qed

text \<open>Facts about the example inputs.\<close>

lemma example_tcp_enabled: "Spec_Konnectivity example_tcp = Some example_spec"
  by (simp add: example_tcp_def)

lemma example_tcp_address: "AssignedControlPlaneAddress example_tcp = Inr (''203.0.113.10'', 6443)"
  by (simp add: example_tcp_def)

lemma Sprintf_d_8132: "Sprintf_d 8132 = ''8132''"
  by (simp add: Sprintf_d_def digits.simps digit_def)

subsection \<open>The claims\<close>

text \<open>
  \<^bold>\<open>C1.\<close> For every tenant control plane with the add-on enabled, after \<^verbatim>\<open>mutate\<close>
  succeeds the argument list of the container holds every built-in argument with its
  built-in value: \<^verbatim>\<open>-v=8\<close>, \<^verbatim>\<open>--logtostderr=true\<close>, \<^verbatim>\<open>--ca-cert\<close>,
  \<^verbatim>\<open>--proxy-server-host\<close> with the resolved address, \<^verbatim>\<open>--proxy-server-port\<close> with the
  port of the spec, \<^verbatim>\<open>--admin-server-port=8133\<close>, \<^verbatim>\<open>--health-server-port=8134\<close> and
  \<^verbatim>\<open>--service-account-token-path\<close>. Built-ins take precedence on key collision: an
  argument of the final list that carries the flag of a built-in is that built-in, whatever
  the extra arguments say.
\<close>

theorem builtin_args_take_precedence:
  assumes "Spec_Konnectivity tcp = Some k"
    and "AssignedControlPlaneAddress tcp = Inr (address, port)"
    and "mutate P tcp r = Returns (None, r')"
  shows "\<exists>c. Containers (pod r') = [c] \<and>
    (\<forall>b \<in> {(''-v'', ''8''),
             (''--logtostderr'', ''true''),
             (''--ca-cert'', ''/var/run/secrets/kubernetes.io/serviceaccount/ca.crt''),
             (''--proxy-server-host'', address),
             (''--proxy-server-port'', Sprintf_d (Port (ServerSpec k))),
             (''--admin-server-port'', ''8133''),
             (''--health-server-port'', ''8134''),
             (''--service-account-token-path'', ''/var/run/secrets/tokens/konnectivity-agent-token'')}.
       fst b @ ''='' @ snd b \<in> set (c_Args c) \<and>
       (\<forall>arg \<in> set (c_Args c). flag_of arg = fst b \<longrightarrow> arg = fst b @ ''='' @ snd b))"
proof -
  from mutate_Containers[OF assms(3)] assms(1,2)
  obtain c where c: "Containers (pod r') = [set_container P k address c]" by auto
  have args: "c_Args (set_container P k address c) = ArgsFromMapToSlice (agent_args k address)"
    by (simp add: set_container_def)
  show ?thesis
  proof (rule exI[of _ "set_container P k address c"], rule conjI, rule c, rule ballI)
    fix b
    assume "b \<in> {(''-v'', ''8''),
             (''--logtostderr'', ''true''),
             (''--ca-cert'', ''/var/run/secrets/kubernetes.io/serviceaccount/ca.crt''),
             (''--proxy-server-host'', address),
             (''--proxy-server-port'', Sprintf_d (Port (ServerSpec k))),
             (''--admin-server-port'', ''8133''),
             (''--health-server-port'', ''8134''),
             (''--service-account-token-path'', ''/var/run/secrets/tokens/konnectivity-agent-token'')}"
    with builtin_map_of have "map_of (agent_args k address) (fst b) = Some (snd b)"
      by (rule bspec)
    from builtin_wins[OF this]
    show "fst b @ ''='' @ snd b \<in> set (c_Args (set_container P k address c)) \<and>
       (\<forall>arg \<in> set (c_Args (set_container P k address c)). flag_of arg = fst b \<longrightarrow> arg = fst b @ ''='' @ snd b)"
      unfolding args .
  qed
qed

theorem builtin_args_take_precedence_witness:
  "\<exists>r' c. mutate example_pkg example_tcp example_resource = Returns (None, r') \<and>
      Containers (pod r') = [c] \<and>
      ''--logtostderr=true'' \<in> set (c_Args c) \<and>
      ''--proxy-server-port=8132'' \<in> set (c_Args c) \<and>
      ''--logtostderr=false'' \<notin> set (c_Args c)"
proof -
  obtain r' where r': "mutate example_pkg example_tcp example_resource = Returns (None, r')"
    using mutate_succeeds[OF example_tcp_enabled example_tcp_address] ..
  from builtin_args_take_precedence[OF example_tcp_enabled example_tcp_address r']
  obtain c where cb: "Containers (pod r') = [c] \<and>
    (\<forall>b \<in> {(''-v'', ''8''),
             (''--logtostderr'', ''true''),
             (''--ca-cert'', ''/var/run/secrets/kubernetes.io/serviceaccount/ca.crt''),
             (''--proxy-server-host'', ''203.0.113.10''),
             (''--proxy-server-port'', Sprintf_d (Port (ServerSpec example_spec))),
             (''--admin-server-port'', ''8133''),
             (''--health-server-port'', ''8134''),
             (''--service-account-token-path'', ''/var/run/secrets/tokens/konnectivity-agent-token'')}.
        fst b @ ''='' @ snd b \<in> set (c_Args c) \<and>
            (\<forall>arg \<in> set (c_Args c). flag_of arg = fst b \<longrightarrow> arg = fst b @ ''='' @ snd b))" ..
  note c = cb[THEN conjunct1] and b = cb[THEN conjunct2, THEN bspec]
  have l: "''--logtostderr=true'' \<in> set (c_Args c) \<and>
      (\<forall>arg \<in> set (c_Args c). flag_of arg = ''--logtostderr'' \<longrightarrow> arg = ''--logtostderr=true'')"
    using b[of "(''--logtostderr'', ''true'')"] by simp
  have p: "''--proxy-server-port=8132'' \<in> set (c_Args c)"
    using b[of "(''--proxy-server-port'', Sprintf_d (Port (ServerSpec example_spec)))"]
    by (simp add: example_spec_def Sprintf_d_8132)
  have f: "flag_of ''--logtostderr=false'' = ''--logtostderr''"
    by (simp add: flag_of_def)
  have n: "''--logtostderr=false'' \<notin> set (c_Args c)"
  proof
    assume "''--logtostderr=false'' \<in> set (c_Args c)"
    with l[THEN conjunct2] have "flag_of ''--logtostderr=false'' = ''--logtostderr''
       \<longrightarrow> ''--logtostderr=false'' = ''--logtostderr=true''" by (rule bspec)
    with f have "''--logtostderr=false'' = ''--logtostderr=true''" by (rule mp[rotated])
    then show False by simp
  qed
  show ?thesis
    by (rule exI[of _ r'], rule exI[of _ c]) (simp only: r' c l[THEN conjunct1] p n simp_thms)
qed

text \<open>
  \<^bold>\<open>C2.\<close> The spec has \<^verbatim>\<open>ShouldStatusBeUpdated\<close> true exactly when the add-on is
  disabled and the status still shows a populated object. The code compares the length of
  the status namespace with zero the other way round: on a disabled control plane whose
  status is still populated it returns false, and on one whose status is cleared it returns
  true.
\<close>

theorem ShouldStatusBeUpdated_inverted:
  "\<not> ShouldStatusBeUpdated example_disabled_tcp \<and>
   ShouldStatusBeUpdated
     (example_disabled_tcp\<lparr>Status_Konnectivity :=
        example_status\<lparr>Agent := zero_ExternalKubernetesObjectStatus\<rparr>\<rparr>)"
  by (simp add: ShouldStatusBeUpdated_def example_disabled_tcp_def example_tcp_def
        example_status_def zero_ExternalKubernetesObjectStatus_def)

text \<open>
  \<^bold>\<open>C3.\<close> \<^verbatim>\<open>mutate\<close> is idempotent: when it succeeds on an object and a control plane,
  a second call on the resulting object with the same control plane succeeds and leaves that
  object as it is, the argument list in the same order.
\<close>

theorem mutate_idempotent:
  "mutate P tcp r = Returns (None, r') \<Longrightarrow> mutate P tcp r' = Returns (None, r')"
  by (auto simp: mutate_defs set_container_def split: sum.splits option.splits prod.splits if_splits)

theorem mutate_idempotent_witness:
  "\<exists>r'. mutate example_pkg example_tcp example_existing = Returns (None, r') \<and>
        mutate example_pkg example_tcp r' = Returns (None, r')"
proof -
  obtain r' where r': "mutate example_pkg example_tcp example_existing = Returns (None, r')"
    using mutate_succeeds[OF example_tcp_enabled example_tcp_address] ..
  from r' mutate_idempotent[OF r'] show ?thesis by (intro exI conjI)
qed

text \<open>
  \<^bold>\<open>C4.\<close> After any successful \<^verbatim>\<open>mutate\<close>, from any initial object, the selector's
  match-labels are a subset of the labels of the pod template: every key and value of
  \<^verbatim>\<open>Spec.Selector.MatchLabels\<close> is a label of \<^verbatim>\<open>Spec.Template\<close>.
\<close>

theorem selector_within_template_labels:
  assumes "mutate P tcp r = Returns (None, r')"
  shows "\<exists>s. Selector (ds_Spec r') = Some s \<and> MatchLabels s = [''k8s-app'' \<mapsto> AgentName P] \<and>
    (\<forall>key v. MatchLabels s key = Some v \<longrightarrow>
        GetLabels (tpl_ObjectMeta (Template (ds_Spec r'))) key = Some v)"
  using assms
  by (auto simp: mutate_defs split: sum.splits option.splits prod.splits if_splits)

theorem selector_within_template_labels_witness:
  "\<exists>r' s. mutate example_pkg example_tcp example_existing = Returns (None, r') \<and>
      Selector (ds_Spec r') = Some s \<and>
      MatchLabels s ''k8s-app'' = Some ''konnectivity-agent'' \<and>
      GetLabels (tpl_ObjectMeta (Template (ds_Spec r'))) ''k8s-app'' = Some ''konnectivity-agent''"
proof -
  obtain r' where r': "mutate example_pkg example_tcp example_existing = Returns (None, r')"
    using mutate_succeeds[OF example_tcp_enabled example_tcp_address] ..
  from selector_within_template_labels[OF r']
  obtain s where s: "Selector (ds_Spec r') = Some s \<and>
      MatchLabels s = [''k8s-app'' \<mapsto> AgentName example_pkg] \<and>
      (\<forall>key v. MatchLabels s key = Some v \<longrightarrow>
          GetLabels (tpl_ObjectMeta (Template (ds_Spec r'))) key = Some v)" ..
  have m: "MatchLabels s ''k8s-app'' = Some ''konnectivity-agent''"
    using s by (simp add: example_pkg_def)
  have "MatchLabels s ''k8s-app'' = Some ''konnectivity-agent'' \<longrightarrow>
          GetLabels (tpl_ObjectMeta (Template (ds_Spec r'))) ''k8s-app'' = Some ''konnectivity-agent''"
    using s[THEN conjunct2, THEN conjunct2] by (elim allE)
  with m have "GetLabels (tpl_ObjectMeta (Template (ds_Spec r'))) ''k8s-app'' = Some ''konnectivity-agent''"
    by (rule mp[rotated])
  with r' s[THEN conjunct1] m show ?thesis by (intro exI conjI)
qed

text \<open>
  \<^bold>\<open>C5.\<close> When the address of the control plane does not resolve, \<^verbatim>\<open>mutate\<close> returns
  the resolution error and leaves the object in memory exactly as it was. So
  \<^verbatim>\<open>CreateOrUpdate\<close> reports \<^verbatim>\<open>OperationResultNone\<close> with an error and the store holds
  the objects it held: none is created or updated, the only call that can reach the store is
  the read. And the pass in which \<^verbatim>\<open>mutate\<close> runs (the add-on is enabled) does not
  modify the status: whenever it returns, it returns an error and the control plane as it
  was given, and it does return, with the store's objects unchanged, when the resolver
  hands out a client.
\<close>

theorem unresolved_address_aborts:
  assumes "AssignedControlPlaneAddress tcp = Inl err"
  shows "mutate P tcp r = Returns (Some err, r) \<and>
    (\<forall>ag obj c. resource ag = Some obj \<and> tenantClient ag = Some c \<longrightarrow>
       (\<exists>res ag' c'.
          CreateOrUpdate P ag tcp = Returns ((OperationResultNone, res), ag') \<and>
          tenantClient ag' = Some c' \<and>
          objects c' = objects c \<and>
          (calls c' = calls c \<or> calls c' = calls c @ [GetCall (ObjectKeyFromObject obj)]) \<and>
          (Spec_Konnectivity tcp \<noteq> None \<longrightarrow>
             res = Some err \<or> (\<exists>msg. res = Some (StoreError msg))))) \<and>
    (Spec_Konnectivity tcp \<noteq> None \<longrightarrow>
       (\<forall>G now r0.
          (\<forall>e r1 tcp'. ReconcilePass P G now r0 tcp = Returns (e, r1, tcp') \<longrightarrow>
             e \<noteq> None \<and> tcp' = tcp \<and> Status_Konnectivity tcp' = Status_Konnectivity tcp) \<and>
          (\<forall>c. G tcp = (Some c, None) \<longrightarrow>
             (\<exists>e r1 c1. ReconcilePass P G now r0 tcp = Returns (Some e, r1, tcp) \<and>
                tenantClient r1 = Some c1 \<and> objects c1 = objects c \<and>
                (e = err \<or> (\<exists>msg. e = StoreError msg))))))"
proof (intro conjI allI impI)
  show "mutate P tcp r = Returns (Some err, r)"
    by (rule mutate_unresolved[OF assms])
next
  fix ag :: Agent and obj c
  assume "resource ag = Some obj \<and> tenantClient ag = Some c"
  then show "\<exists>res ag' c'.
          CreateOrUpdate P ag tcp = Returns ((OperationResultNone, res), ag') \<and>
          tenantClient ag' = Some c' \<and>
          objects c' = objects c \<and>
          (calls c' = calls c \<or> calls c' = calls c @ [GetCall (ObjectKeyFromObject obj)]) \<and>
          (Spec_Konnectivity tcp \<noteq> None \<longrightarrow>
             res = Some err \<or> (\<exists>msg. res = Some (StoreError msg)))"
    by (rule CreateOrUpdate_unresolved[OF assms])
next
  fix G now r0 e r1 tcp'
  assume "Spec_Konnectivity tcp \<noteq> None" and "ReconcilePass P G now r0 tcp = Returns (e, r1, tcp')"
  from ReconcilePass_unresolved_safe[OF assms this]
  show "e \<noteq> None" and "tcp' = tcp" and "Status_Konnectivity tcp' = Status_Konnectivity tcp"
    by simp_all
next
  fix G :: "TenantControlPlane \<Rightarrow> client option \<times> error option" and now r0 c
  assume "Spec_Konnectivity tcp \<noteq> None" and "G tcp = (Some c, None)"
  then show "\<exists>e r1 c1. ReconcilePass P G now r0 tcp = Returns (Some e, r1, tcp) \<and>
                tenantClient r1 = Some c1 \<and> objects c1 = objects c \<and>
                (e = err \<or> (\<exists>msg. e = StoreError msg))"
    by (rule ReconcilePass_unresolved_returns[OF assms])
qed

theorem unresolved_address_aborts_witness:
  "mutate example_pkg example_unexposed_tcp example_resource = Returns (Some example_error, example_resource) \<and>
   (\<exists>res ag' c'.
      CreateOrUpdate example_pkg example_agent example_unexposed_tcp =
        Returns ((OperationResultNone, res), ag') \<and>
      tenantClient ag' = Some c' \<and> objects c' = objects example_client) \<and>
   (\<exists>e r1 c1.
      ReconcilePass example_pkg example_GetTenantClient 42 example_agent example_unexposed_tcp =
        Returns (Some e, r1, example_unexposed_tcp) \<and>
      tenantClient r1 = Some c1 \<and> objects c1 = objects example_client)"
proof -
  have h: "AssignedControlPlaneAddress example_unexposed_tcp = Inl example_error"
    by (simp add: example_unexposed_tcp_def)
  have a: "resource example_agent = Some example_resource \<and> tenantClient example_agent = Some example_client"
    by (simp add: example_agent_def)
  have k: "Spec_Konnectivity example_unexposed_tcp \<noteq> None"
    by (simp add: example_unexposed_tcp_def example_tcp_def)
  have g: "example_GetTenantClient example_unexposed_tcp = (Some example_client, None)"
    by (simp add: example_GetTenantClient_def)
  note t = unresolved_address_aborts[OF h, of example_pkg example_resource]
  from t[THEN conjunct2, THEN conjunct1] a
  have "\<exists>res ag' c'.
          CreateOrUpdate example_pkg example_agent example_unexposed_tcp = Returns ((OperationResultNone, res), ag') \<and>
          tenantClient ag' = Some c' \<and>
          objects c' = objects example_client \<and>
          (calls c' = calls example_client \<or> calls c' = calls example_client @ [GetCall (ObjectKeyFromObject example_resource)]) \<and>
          (Spec_Konnectivity example_unexposed_tcp \<noteq> None \<longrightarrow>
             res = Some example_error \<or> (\<exists>msg. res = Some (StoreError msg)))"
    by blast
  then have 2: "\<exists>res ag' c'.
      CreateOrUpdate example_pkg example_agent example_unexposed_tcp =
        Returns ((OperationResultNone, res), ag') \<and>
      tenantClient ag' = Some c' \<and> objects c' = objects example_client"
    by blast
  from t[THEN conjunct2, THEN conjunct2] k g
  have "\<exists>e r1 c1.
      ReconcilePass example_pkg example_GetTenantClient 42 example_agent example_unexposed_tcp =
        Returns (Some e, r1, example_unexposed_tcp) \<and>
      tenantClient r1 = Some c1 \<and> objects c1 = objects example_client \<and>
      (e = example_error \<or> (\<exists>msg. e = StoreError msg))"
    by blast
  then have 3: "\<exists>e r1 c1.
      ReconcilePass example_pkg example_GetTenantClient 42 example_agent example_unexposed_tcp =
        Returns (Some e, r1, example_unexposed_tcp) \<and>
      tenantClient r1 = Some c1 \<and> objects c1 = objects example_client"
    by blast
  from t[THEN conjunct1] 2 3 show ?thesis by (intro conjI)
qed

text \<open>
  \<^bold>\<open>C6.\<close> \<^verbatim>\<open>CleanUp\<close> is an idempotent delete: when the delete reports "not found" it
  returns \<^verbatim>\<open>(false, nil)\<close>; when the delete succeeds it returns \<^verbatim>\<open>(true, nil)\<close>; any
  other failure of the delete is returned unchanged. Deleting twice in a row: after a call
  that has returned no error, a second call that the store answers returns \<^verbatim>\<open>(false, nil)\<close>.
\<close>

theorem CleanUp_idempotent_delete:
  assumes "resource r = Some obj" and "tenantClient r = Some c"
  shows "(\<forall>c1 err. Delete c obj = (Some err, c1) \<and> IsNotFound err \<longrightarrow>
            CleanUp r = Returns ((False, None), r\<lparr>tenantClient := Some c1\<rparr>)) \<and>
         (\<forall>c1. Delete c obj = (None, c1) \<longrightarrow>
            CleanUp r = Returns ((True, None), r\<lparr>tenantClient := Some c1\<rparr>)) \<and>
         (\<forall>c1 err. Delete c obj = (Some err, c1) \<and> \<not> IsNotFound err \<longrightarrow>
            CleanUp r = Returns ((False, Some err), r\<lparr>tenantClient := Some c1\<rparr>)) \<and>
         (\<forall>deleted r1 c1. CleanUp r = Returns ((deleted, None), r1) \<and>
            tenantClient r1 = Some c1 \<and> next_fault c1 = None \<longrightarrow>
            (\<exists>r2. CleanUp r1 = Returns ((False, None), r2)))"
proof (intro conjI allI impI)
  fix deleted r1 c1
  assume h: "CleanUp r = Returns ((deleted, None), r1) \<and> tenantClient r1 = Some c1 \<and> next_fault c1 = None"
  then have r1: "resource r1 = Some obj" and "objects c1 (ObjectKeyFromObject obj) = None"
    using assms
    by (auto simp: CleanUp_def Delete_def Let_def called_def split: option.splits if_splits)
  with h show "\<exists>r2. CleanUp r1 = Returns ((False, None), r2)"
    by (simp add: CleanUp_def Delete_def Let_def)
qed (use assms in \<open>simp_all add: CleanUp_def\<close>)

theorem CleanUp_idempotent_delete_witness:
  "\<exists>r1 r2. CleanUp example_agent = Returns ((True, None), r1) \<and>
            CleanUp r1 = Returns ((False, None), r2)"
proof -
  have a: "resource example_agent = Some example_resource" "tenantClient example_agent = Some example_client"
    by (simp_all add: example_agent_def)
  define c1 where "c1 = snd (Delete example_client example_resource)"
  have d: "Delete example_client example_resource = (None, c1)"
    by (simp add: c1_def Delete_def Let_def next_fault_def example_client_def ObjectKeyFromObject_def
          example_resource_def zero_ObjectMeta_def)
  have n: "next_fault c1 = None"
    by (simp add: c1_def Delete_def Let_def next_fault_def called_def example_client_def
          ObjectKeyFromObject_def example_resource_def zero_ObjectMeta_def)
  note t = CleanUp_idempotent_delete[OF a]
  from t[THEN conjunct2, THEN conjunct1] d
  have 1: "CleanUp example_agent = Returns ((True, None), example_agent\<lparr>tenantClient := Some c1\<rparr>)"
    by blast
  have "tenantClient (example_agent\<lparr>tenantClient := Some c1\<rparr>) = Some c1" by simp
  with t[THEN conjunct2, THEN conjunct2, THEN conjunct2] 1 n
  obtain r2 where "CleanUp (example_agent\<lparr>tenantClient := Some c1\<rparr>) = Returns ((False, None), r2)"
    by blast
  with 1 show ?thesis by (intro exI conjI)
qed

text \<open>
  \<^bold>\<open>C7.\<close> \<^verbatim>\<open>UpdateTenantControlPlaneStatus\<close> never returns an error. With the add-on
  enabled it overwrites the agent status with the name and namespace of the managed object
  and the time of the call; with the add-on disabled it resets the agent status to its zero
  value, whatever the agent holds and whether or not a delete has happened.
\<close>

theorem UpdateTenantControlPlaneStatus_sets_or_clears:
  "UpdateTenantControlPlaneStatus now r tcp \<noteq> Returns (Some err, tcp') \<and>
   (\<forall>k obj. Spec_Konnectivity tcp = Some k \<and> resource r = Some obj \<longrightarrow>
      UpdateTenantControlPlaneStatus now r tcp =
        Returns (None,
          tcp\<lparr>Status_Konnectivity := (Status_Konnectivity tcp)\<lparr>Agent :=
            \<lparr>st_Name = Name (ds_ObjectMeta obj),
             st_Namespace = Namespace (ds_ObjectMeta obj),
             st_LastUpdate = now\<rparr>\<rparr>\<rparr>)) \<and>
   (Spec_Konnectivity tcp = None \<longrightarrow>
      UpdateTenantControlPlaneStatus now r tcp =
        Returns (None,
          tcp\<lparr>Status_Konnectivity := (Status_Konnectivity tcp)\<lparr>Agent :=
            \<lparr>st_Name = [], st_Namespace = [], st_LastUpdate = 0\<rparr>\<rparr>\<rparr>))"
  by (auto simp: UpdateTenantControlPlaneStatus_def zero_ExternalKubernetesObjectStatus_def
        split: option.splits)

theorem UpdateTenantControlPlaneStatus_sets_or_clears_witness:
  "\<exists>t u. UpdateTenantControlPlaneStatus 42 example_agent example_tcp = Returns (None, t) \<and>
     Agent (Status_Konnectivity t) =
       \<lparr>st_Name = ''konnectivity-agent'', st_Namespace = ''kube-system'', st_LastUpdate = 42\<rparr> \<and>
     UpdateTenantControlPlaneStatus 42 example_agent example_disabled_tcp = Returns (None, u) \<and>
     Agent (Status_Konnectivity u) = \<lparr>st_Name = [], st_Namespace = [], st_LastUpdate = 0\<rparr>"
proof -
  have a: "resource example_agent = Some example_resource"
    by (simp add: example_agent_def)
  have d: "Spec_Konnectivity example_disabled_tcp = None"
    by (simp add: example_disabled_tcp_def)
  have n: "Name (ds_ObjectMeta example_resource) = ''konnectivity-agent''"
    "Namespace (ds_ObjectMeta example_resource) = ''kube-system''"
    by (simp_all add: example_resource_def zero_ObjectMeta_def)
  note t1 = UpdateTenantControlPlaneStatus_sets_or_clears[of 42 example_agent example_tcp,
      THEN conjunct2, THEN conjunct1, rule_format, OF conjI, OF example_tcp_enabled a]
  note t2 = UpdateTenantControlPlaneStatus_sets_or_clears[of 42 example_agent example_disabled_tcp,
      THEN conjunct2, THEN conjunct2, rule_format, OF d]
  show ?thesis
    by (rule exI, rule exI, intro conjI, rule t1, simp add: n, rule t2, simp)
qed

text \<open>
  \<^bold>\<open>C8.\<close> With the add-on disabled, \<^verbatim>\<open>CreateOrUpdate\<close> returns
  \<^verbatim>\<open>OperationResultNone\<close> and no error, and changes nothing: the agent it returns is the
  agent it was given, with the same object in memory and the same store, in which no call
  has been recorded.
\<close>

theorem CreateOrUpdate_disabled_is_noop:
  assumes "Spec_Konnectivity tcp = None"
  shows "CreateOrUpdate P r tcp = Returns ((OperationResultNone, None), r)"
  using assms by (simp add: CreateOrUpdate_def)

theorem CreateOrUpdate_disabled_is_noop_witness:
  "CreateOrUpdate example_pkg example_agent example_disabled_tcp =
     Returns ((OperationResultNone, None), example_agent)"
proof -
  have d: "Spec_Konnectivity example_disabled_tcp = None"
    by (simp add: example_disabled_tcp_def)
  show ?thesis by (rule CreateOrUpdate_disabled_is_noop[OF d])
qed

text \<open>
  \<^bold>\<open>C9.\<close> After every successful \<^verbatim>\<open>mutate\<close> the boundary values are those of the
  external contract: the liveness probe is an HTTP GET on path \<^verbatim>\<open>/healthz\<close>, port 8134,
  scheme HTTP, with initial delay 15, timeout 15, period 10, success threshold 1 and failure
  threshold 3; the credential volume is mounted at \<^verbatim>\<open>/var/run/secrets/tokens\<close>, its
  projected token expires after 3600 seconds and the default mode of the volume is 420.
\<close>

theorem boundary_values:
  assumes "mutate P tcp r = Returns (None, r')"
  shows "\<exists>c. Containers (pod r') = [c] \<and>
     c_LivenessProbe c = Some
       \<lparr>HTTPGet = Some \<lparr>http_Path = ''/healthz'', http_Port = FromInt 8134, http_Host = [],
                        http_Scheme = ''HTTP''\<rparr>,
        InitialDelaySeconds = 15, TimeoutSeconds = 15, PeriodSeconds = 10,
        SuccessThreshold = 1, FailureThreshold = 3\<rparr> \<and>
     c_VolumeMounts c =
       [\<lparr>vm_MountPath = ''/var/run/secrets/tokens'', vm_Name = agentTokenName P,
         vm_ReadOnly = False, vm_SubPath = []\<rparr>] \<and>
     Volumes (pod r') =
       [\<lparr>v_Name = agentTokenName P,
         v_Projected = Some
           \<lparr>Sources =
              [\<lparr>ServiceAccountToken = Some
                  \<lparr>sat_Path = agentTokenName P,
                   sat_Audience = st_Name (ClusterRoleBinding (Status_Konnectivity tcp)),
                   sat_ExpirationSeconds = Some 3600\<rparr>\<rparr>],
            DefaultMode = Some 420\<rparr>\<rparr>]"
proof -
  from mutate_Containers[OF assms]
  obtain k address c where c: "Containers (pod r') = [set_container P k address c]" by auto
  have "Volumes (pod r') = agent_volumes P tcp"
    using assms unfolding mutate_Returns_None_iff
    by (auto simp: pod_with_pod pod_set_labels set_pod_def Let_def)
  then show ?thesis
    unfolding c by (simp add: set_container_def agent_probe_def agent_volumes_def URISchemeHTTP_def)
qed

theorem boundary_values_witness:
  "\<exists>r' c. mutate example_pkg example_tcp example_resource = Returns (None, r') \<and>
     Containers (pod r') = [c] \<and>
     c_LivenessProbe c = Some
       \<lparr>HTTPGet = Some \<lparr>http_Path = ''/healthz'', http_Port = FromInt 8134, http_Host = [],
                        http_Scheme = ''HTTP''\<rparr>,
        InitialDelaySeconds = 15, TimeoutSeconds = 15, PeriodSeconds = 10,
        SuccessThreshold = 1, FailureThreshold = 3\<rparr> \<and>
     c_VolumeMounts c =
       [\<lparr>vm_MountPath = ''/var/run/secrets/tokens'', vm_Name = agentTokenName example_pkg,
         vm_ReadOnly = False, vm_SubPath = []\<rparr>] \<and>
     Volumes (pod r') =
       [\<lparr>v_Name = agentTokenName example_pkg,
         v_Projected = Some
           \<lparr>Sources =
              [\<lparr>ServiceAccountToken = Some
                  \<lparr>sat_Path = agentTokenName example_pkg,
                   sat_Audience = st_Name (ClusterRoleBinding (Status_Konnectivity example_tcp)),
                   sat_ExpirationSeconds = Some 3600\<rparr>\<rparr>],
            DefaultMode = Some 420\<rparr>\<rparr>]"
proof -
  obtain r' where r': "mutate example_pkg example_tcp example_resource = Returns (None, r')"
    using mutate_succeeds[OF example_tcp_enabled example_tcp_address] ..
  from boundary_values[OF r'] obtain c where
    cc: "Containers (pod r') = [c] \<and>
     c_LivenessProbe c = Some
       \<lparr>HTTPGet = Some \<lparr>http_Path = ''/healthz'', http_Port = FromInt 8134, http_Host = [],
                        http_Scheme = ''HTTP''\<rparr>,
        InitialDelaySeconds = 15, TimeoutSeconds = 15, PeriodSeconds = 10,
        SuccessThreshold = 1, FailureThreshold = 3\<rparr> \<and>
     c_VolumeMounts c =
       [\<lparr>vm_MountPath = ''/var/run/secrets/tokens'', vm_Name = agentTokenName example_pkg,
         vm_ReadOnly = False, vm_SubPath = []\<rparr>] \<and>
     Volumes (pod r') =
       [\<lparr>v_Name = agentTokenName example_pkg,
         v_Projected = Some
           \<lparr>Sources =
              [\<lparr>ServiceAccountToken = Some
                  \<lparr>sat_Path = agentTokenName example_pkg,
                   sat_Audience = st_Name (ClusterRoleBinding (Status_Konnectivity example_tcp)),
                   sat_ExpirationSeconds = Some 3600\<rparr>\<rparr>],
            DefaultMode = Some 420\<rparr>\<rparr>]" ..
  show ?thesis
    by (rule exI[of _ r'], rule exI[of _ c], rule conjI, rule r', rule cc)
qed

text \<open>
  \<^bold>\<open>C10.\<close> When the pod template holds exactly one container, \<^verbatim>\<open>mutate\<close> keeps the
  fields of that container that it does not assign (environment, ports, resources, pull
  policy). When the number of containers is not one, the list becomes a single container
  built on the zero value: those fields are empty, and every former entry is gone.
\<close>

theorem container_frame:
  assumes "mutate P tcp r = Returns (None, r')"
  shows "\<exists>c'. Containers (pod r') = [c'] \<and>
     (\<forall>c. Containers (pod r) = [c] \<longrightarrow>
        c_Env c' = c_Env c \<and> c_Ports c' = c_Ports c \<and> c_Resources c' = c_Resources c \<and>
        c_ImagePullPolicy c' = c_ImagePullPolicy c) \<and>
     (length (Containers (pod r)) \<noteq> 1 \<longrightarrow>
        c_Env c' = [] \<and> c_Ports c' = [] \<and> c_Resources c' = [] \<and> c_ImagePullPolicy c' = [])"
proof -
  from mutate_Containers[OF assms]
  obtain k address where c: "Containers (pod r') =
          [set_container P k address
             (if length (Containers (pod r)) \<noteq> 1 then zero_Container else hd (Containers (pod r)))]"
    by auto
  show ?thesis unfolding c by (auto simp: set_container_def zero_Container_def)
qed

theorem container_frame_witness:
  "\<exists>r1 c1 r2 c2.
      mutate example_pkg example_tcp example_existing = Returns (None, r1) \<and>
      Containers (pod r1) = [c1] \<and> c_Env c1 = [(''HTTP_PROXY'', ''proxy:3128'')] \<and>
      mutate example_pkg example_tcp example_resource = Returns (None, r2) \<and>
      Containers (pod r2) = [c2] \<and> c_Env c2 = []"
proof -
  obtain r1 where r1: "mutate example_pkg example_tcp example_existing = Returns (None, r1)"
    using mutate_succeeds[OF example_tcp_enabled example_tcp_address] ..
  obtain r2 where r2: "mutate example_pkg example_tcp example_resource = Returns (None, r2)"
    using mutate_succeeds[OF example_tcp_enabled example_tcp_address] ..
  have e1: "Containers (pod example_existing) = [example_container]"
    by (simp add: example_existing_def)
  have e2: "length (Containers (pod example_resource)) \<noteq> 1"
    by (simp add: example_resource_def zero_DaemonSetSpec_def zero_PodSpec_def)
  have e3: "c_Env example_container = [(''HTTP_PROXY'', ''proxy:3128'')]"
    by (simp add: example_container_def)
  from container_frame[OF r1] e1 e3 obtain c1 where
    c1: "Containers (pod r1) = [c1]" "c_Env c1 = [(''HTTP_PROXY'', ''proxy:3128'')]" by auto
  from container_frame[OF r2] e2 obtain c2 where
    c2: "Containers (pod r2) = [c2]" "c_Env c2 = []" by auto
  from r1 c1 r2 c2 show ?thesis by (intro exI conjI)
qed

end
